theory Spec2Isabelle
  imports Complex_Main
begin

section \<open>Data model\<close>

text \<open>
  One row of the sales file, with the nine columns of \<^verbatim>\<open>setup_and_demo.py\<close>
  (lines 30-31 and 52-63). \<open>OrderDate\<close> is a pandas timestamp; it is held as the number
  of hours after \<^verbatim>\<open>2020-01-01 00:00\<close>, the start every \<^verbatim>\<open>pd.date_range\<close> call of
  the generator is given. \<open>Price\<close> is a float64 in the source; it is held as the real
  number the float stands for. How numpy rounds a float to two decimals is left to the
  library (see \<open>np_round\<close> below); the revenue script's arithmetic on prices is exact, so
  rounding errors of binary floating point are not part of the model.
\<close>

record transaction =
  TransactionID :: int
  OrderDate :: int
  ProductID :: int
  ProductName :: string
  Category :: string
  Price :: real
  Quantity :: int
  CustomerID :: int
  Region :: string

datatype csv_line = Header "string list" | Row transaction

text \<open>
  A file holds either CSV lines or one of the two launch scripts, whose text is not
  modelled.
\<close>

datatype file_content = Csv "csv_line list" | Script

text \<open>
  numpy, with its process-wide random state. The library is not part of the repository,
  so it is a parameter: the state type \<open>'g\<close>, the reseeding, one draw of each kind the
  program uses, and \<^verbatim>\<open>np.round\<close>, which works on binary floating-point numbers. A
  vectorised draw of \<open>size\<close> values is \<open>size\<close> successive draws.
\<close>

record 'g np_random =
  np_seed :: "nat \<Rightarrow> 'g"
  np_randint :: "int \<Rightarrow> int \<Rightarrow> 'g \<Rightarrow> int \<times> 'g"
  np_choice :: "string list \<Rightarrow> 'g \<Rightarrow> string \<times> 'g"
  np_lognormal :: "real \<Rightarrow> real \<Rightarrow> 'g \<Rightarrow> real \<times> 'g"
  np_round :: "real \<Rightarrow> nat \<Rightarrow> real"

text \<open>
  What the program can change: the random state, the files on disk, and the child
  processes it has started (the argument list of each \<^verbatim>\<open>subprocess.Popen\<close> after the
  interpreter, in launch order).
\<close>

record 'g world =
  np_state :: 'g
  files :: "string \<rightharpoonup> file_content"
  launched :: "string list list"

section \<open>Library operations\<close>

text \<open>\<^verbatim>\<open>range(start, stop, step)\<close> for a positive step.\<close>

function py_range :: "int \<Rightarrow> int \<Rightarrow> int \<Rightarrow> int list" where
  "py_range start stop step =
     (if 0 < step \<and> start < stop then start # py_range (start + step) stop step else [])"
  by pat_completeness auto
termination
  by (relation "measure (\<lambda>(start, stop, step). nat (stop - start))") auto

declare py_range.simps [simp del]

text \<open>
  \<^verbatim>\<open>pd.date_range('2020-01-01', periods=n, freq=f'{k}H')\<close>: \<open>n\<close> timestamps, \<open>k\<close> hours
  apart, the first at the start date (offset 0).
\<close>

definition date_range :: "nat \<Rightarrow> int \<Rightarrow> int list" where
  "date_range periods freq_hours = map (\<lambda>i. int i * freq_hours) [0..<periods]"

fun draws :: "nat \<Rightarrow> ('g \<Rightarrow> 'a \<times> 'g) \<Rightarrow> 'g \<Rightarrow> 'a list \<times> 'g" where
  "draws 0 d g = ([], g)"
| "draws (Suc n) d g =
     (case d g of (x, g1) \<Rightarrow> (case draws n d g1 of (xs, g2) \<Rightarrow> (x # xs, g2)))"

text \<open>\<^verbatim>\<open>df.to_csv(filename, index=False)\<close> replaces the file; with \<^verbatim>\<open>mode='a'\<close> it appends.\<close>

definition to_csv :: "string \<Rightarrow> csv_line list \<Rightarrow> 'g world \<Rightarrow> 'g world" where
  "to_csv filename ls w = w\<lparr>files := (files w)(filename \<mapsto> Csv ls)\<rparr>"

definition to_csv_append :: "string \<Rightarrow> csv_line list \<Rightarrow> 'g world \<Rightarrow> 'g world" where
  "to_csv_append filename ls w =
     w\<lparr>files := (files w)(filename \<mapsto>
        (case files w filename of
           Some (Csv old) \<Rightarrow> Csv (old @ ls)
         | Some Script \<Rightarrow> Script
         | None \<Rightarrow> Csv ls))\<rparr>"

section \<open>The dataset generator\<close>

definition batch_size :: int where
  "batch_size = 100000"

definition columns :: "string list" where
  "columns = [''TransactionID'', ''OrderDate'', ''ProductID'', ''ProductName'',
              ''Category'', ''Price'', ''Quantity'', ''CustomerID'', ''Region'']"

definition categories :: "string list" where
  "categories = [''Electronics'', ''Clothing'', ''Home & Garden'', ''Sports'', ''Books'',
                 ''Toys'', ''Health'', ''Automotive'', ''Food'', ''Beauty'']"

definition regions :: "string list" where
  "regions = [''North'', ''South'', ''East'', ''West'', ''Central'']"

text \<open>\<^verbatim>\<open>str(i)\<close> for \<open>i \<ge> 0\<close>, and the pool \<^verbatim>\<open>[f'Product_{i}' for i in range(1, 1001)]\<close>.\<close>

fun digits :: "nat \<Rightarrow> nat \<Rightarrow> string" where
  "digits 0 n = []"
| "digits (Suc fuel) n =
     (if n < 10 then [char_of (48 + n)] else digits fuel (n div 10) @ [char_of (48 + n mod 10)])"

definition str :: "int \<Rightarrow> string" where
  "str i = digits (Suc (nat i)) (nat i)"

definition product_names :: "string list" where
  "product_names = map (\<lambda>i. ''Product_'' @ str i) (py_range 1 1001 1)"

definition batch_end :: "int \<Rightarrow> int \<Rightarrow> int" where
  "batch_end batch_start num_rows = min (batch_start + batch_size) num_rows"

definition batch_rows :: "int \<Rightarrow> int \<Rightarrow> int" where
  "batch_rows batch_start num_rows = batch_end batch_start num_rows - batch_start"

definition total_days :: int where
  "total_days = 365 * 4"

definition hours_per_batch :: "int \<Rightarrow> int" where
  "hours_per_batch rows = max 1 (total_days * 24 div rows)"

text \<open>
  \<^verbatim>\<open>pd.DataFrame(batch_data)\<close>: row \<open>i\<close> takes entry \<open>i\<close> of every column. All nine
  columns of a batch have \<open>n\<close> entries: the two computed ones by their definitions, the
  drawn ones because \<open>draws n\<close> returns \<open>n\<close> values.
\<close>

definition data_frame ::
  "nat \<Rightarrow> int list \<Rightarrow> int list \<Rightarrow> int list \<Rightarrow> string list \<Rightarrow> string list \<Rightarrow> real list \<Rightarrow>
   int list \<Rightarrow> int list \<Rightarrow> string list \<Rightarrow> transaction list" where
  "data_frame n tids dates pids names cats prices qtys cids regs =
     map (\<lambda>i. \<lparr>TransactionID = tids ! i, OrderDate = dates ! i, ProductID = pids ! i,
               ProductName = names ! i, Category = cats ! i, Price = prices ! i,
               Quantity = qtys ! i, CustomerID = cids ! i, Region = regs ! i\<rparr>) [0..<n]"

text \<open>
  The body of the batch loop up to the data frame (lines 43-65). The random columns are
  drawn in the order the dictionary literal lists them.
\<close>

definition make_batch :: "'g np_random \<Rightarrow> int \<Rightarrow> int \<Rightarrow> 'g \<Rightarrow> transaction list \<times> 'g" where
  "make_batch rng batch_start num_rows g =
     (let rows = batch_rows batch_start num_rows;
          n = nat rows;
          tids = py_range (batch_start + 1) (batch_end batch_start num_rows + 1) 1;
          dates = date_range n (hours_per_batch rows)
      in case draws n (np_randint rng 1000 9999) g of (pids, g1) \<Rightarrow>
         case draws n (np_choice rng product_names) g1 of (names, g2) \<Rightarrow>
         case draws n (np_choice rng categories) g2 of (cats, g3) \<Rightarrow>
         case draws n (np_lognormal rng 3 1) g3 of (draws_price, g4) \<Rightarrow>
         case draws n (np_randint rng 1 10) g4 of (qtys, g5) \<Rightarrow>
         case draws n (np_randint rng 10000 99999) g5 of (cids, g6) \<Rightarrow>
         case draws n (np_choice rng regions) g6 of (regs, g7) \<Rightarrow>
           (data_frame n tids dates pids names cats
              (map (\<lambda>x. np_round rng x 2) draws_price) qtys cids regs, g7))"

definition write_batch :: "'g np_random \<Rightarrow> string \<Rightarrow> int \<Rightarrow> int \<Rightarrow> 'g world \<Rightarrow> 'g world" where
  "write_batch rng filename num_rows batch_start w =
     (case make_batch rng batch_start num_rows (np_state w) of
        (batch_df, g) \<Rightarrow> to_csv_append filename (map Row batch_df) (w\<lparr>np_state := g\<rparr>))"

fun batch_loop :: "'g np_random \<Rightarrow> string \<Rightarrow> int \<Rightarrow> int list \<Rightarrow> 'g world \<Rightarrow> 'g world" where
  "batch_loop rng filename num_rows [] w = w"
| "batch_loop rng filename num_rows (batch_start # rest) w =
     batch_loop rng filename num_rows rest (write_batch rng filename num_rows batch_start w)"

definition create_large_sample_dataset ::
  "'g np_random \<Rightarrow> string \<Rightarrow> int \<Rightarrow> 'g world \<Rightarrow> 'g world" where
  "create_large_sample_dataset rng filename num_rows w =
     (let w1 = w\<lparr>np_state := np_seed rng 42\<rparr>;
          w2 = to_csv filename [Header columns] w1
      in batch_loop rng filename num_rows (py_range 0 num_rows batch_size) w2)"

text \<open>
  Two ways to look at a world afterwards: the lines of a CSV file, and what
  \<^verbatim>\<open>pd.read_csv\<close> (\<^verbatim>\<open>test.py\<close>, line 3) returns for it: the rows after the first
  line, which is taken as the header. A missing or empty file makes it raise (\<open>None\<close>).
\<close>

definition csv_lines :: "string \<Rightarrow> 'g world \<Rightarrow> csv_line list option" where
  "csv_lines filename w = (case files w filename of Some (Csv ls) \<Rightarrow> Some ls | _ \<Rightarrow> None)"

fun row_of :: "csv_line \<Rightarrow> transaction option" where
  "row_of (Header h) = None"
| "row_of (Row r) = Some r"

definition read_csv :: "string \<Rightarrow> 'g world \<Rightarrow> transaction list option" where
  "read_csv filename w =
     (case files w filename of
        Some (Csv (h # ls)) \<Rightarrow> Some (List.map_filter row_of ls)
      | _ \<Rightarrow> None)"

section \<open>The revenue script\<close>

text \<open>Python's \<^verbatim>\<open>sum\<close>: start at 0 and add from the left.\<close>

definition py_sum :: "real list \<Rightarrow> real" where
  "py_sum xs = foldl (+) 0 xs"

text \<open>\<^verbatim>\<open>test.py\<close>: the value the script prints last, \<open>None\<close> when reading the file fails.\<close>

definition test_script :: "'g world \<Rightarrow> real option" where
  "test_script w =
     (case read_csv ''sales_data_5m.csv'' w of
        None \<Rightarrow> None
      | Some data \<Rightarrow>
          (let dat = map (\<lambda>r. (Price r, Quantity r)) data;
               product_list = map (\<lambda>(price, quantity). price * of_int quantity) dat
           in Some (py_sum product_list)))"

section \<open>The demo orchestrator and the command line\<close>

definition popen :: "string list \<Rightarrow> 'g world \<Rightarrow> 'g world" where
  "popen args w = w\<lparr>launched := launched w @ [args]\<rparr>"

text \<open>The loop \<^verbatim>\<open>for i in range(num_workers)\<close> of lines 104-110.\<close>

fun start_workers :: "nat \<Rightarrow> 'g world \<Rightarrow> 'g world" where
  "start_workers 0 w = w"
| "start_workers (Suc n) w =
     start_workers n (popen [''distributed_sales_system.py'', ''worker''] w)"

text \<open>
  Lines 82-110. \<^verbatim>\<open>not csv_file\<close> holds for \<^verbatim>\<open>None\<close> and for the empty string. Waiting
  for the server and terminating the children (lines 115-128) act on the child
  processes only, whose run is outside the model.
\<close>

definition run_demo_with_multiple_workers ::
  "'g np_random \<Rightarrow> string option \<Rightarrow> nat \<Rightarrow> 'g world \<Rightarrow> 'g world" where
  "run_demo_with_multiple_workers rng csv_file num_workers w =
     (case (if csv_file = None \<or> csv_file = Some []
            then (''sales_data_1m.csv'',
                  if files w ''sales_data_1m.csv'' = None
                  then create_large_sample_dataset rng ''sales_data_1m.csv'' 1000000 w
                  else w)
            else (case csv_file of Some f \<Rightarrow> (f, w) | None \<Rightarrow> ([], w))) of
        (f, w1) \<Rightarrow>
          start_workers num_workers (popen [''distributed_sales_system.py'', ''server'', f] w1))"

definition create_batch_script :: "'g world \<Rightarrow> 'g world" where
  "create_batch_script w =
     w\<lparr>files := (files w)(''run_system.bat'' \<mapsto> Script, ''run_system.sh'' \<mapsto> Script)\<rparr>"

text \<open>\<^verbatim>\<open>str.lower\<close> on ASCII text.\<close>

definition lower_char :: "char \<Rightarrow> char" where
  "lower_char c =
     (let n = of_char c :: nat in if 65 \<le> n \<and> n \<le> 90 then char_of (n + 32) else c)"

definition lower :: "string \<Rightarrow> string" where
  "lower s = map lower_char s"

text \<open>
  \<^verbatim>\<open>main\<close>, with \<^verbatim>\<open>sys.argv\<close> as a parameter. Printing is not modelled, so the usage
  text, \<^verbatim>\<open>check\<close> and an unknown command leave the world as it is.
\<close>

definition main :: "'g np_random \<Rightarrow> string list \<Rightarrow> 'g world \<Rightarrow> 'g world" where
  "main rng argv w =
     (if length argv < 2 then w
      else let command = lower (argv ! 1) in
        if command = ''create_small''
          then create_large_sample_dataset rng ''sales_data_1m.csv'' 1000000 w
        else if command = ''create_large''
          then create_large_sample_dataset rng ''sales_data_5m.csv'' 5000000 w
        else if command = ''demo''
          then (let csv_file = (if length argv < 3 then ''sales_data_1m.csv'' else argv ! 2)
                in run_demo_with_multiple_workers rng (Some csv_file) 3 w)
        else if command = ''check'' then w
        else if command = ''scripts'' then create_batch_script w
        else w)"

section \<open>What the draws are known to satisfy\<close>

text \<open>
  What the numpy documentation promises of \<^verbatim>\<open>randint(low, high)\<close>: the value lies in
  the half-open interval from \<open>low\<close> to \<open>high\<close>.
\<close>

definition randint_ok :: "'g np_random \<Rightarrow> bool" where
  "randint_ok rng =
     (\<forall>low high g. low < high \<longrightarrow>
        low \<le> fst (np_randint rng low high g) \<and> fst (np_randint rng low high g) < high)"

section \<open>Concrete inputs\<close>

text \<open>
  A small generator to run the model on: the state is a counter, and every draw is
  computed from the counter and advances it. Its rounding works on exact decimals.
\<close>

definition counter_rng :: "nat np_random" where
  "counter_rng =
     \<lparr>np_seed = (\<lambda>s. s),
      np_randint = (\<lambda>low high g. (low + int g mod (high - low), Suc g)),
      np_choice = (\<lambda>xs g. (xs ! (g mod length xs), Suc g)),
      np_lognormal = (\<lambda>mean sigma g. (real (Suc (g mod 1000)) / 8, Suc g)),
      np_round = (\<lambda>x decimals. of_int (round (x * 10 ^ decimals)) / 10 ^ decimals)\<rparr>"

definition empty_world :: "nat world" where
  "empty_world = \<lparr>np_state = 0, files = Map.empty, launched = []\<rparr>"

text \<open>The three-row fixture for the revenue script.\<close>

definition fixture_row :: "int \<Rightarrow> real \<Rightarrow> int \<Rightarrow> transaction" where
  "fixture_row tid price quantity =
     \<lparr>TransactionID = tid, OrderDate = 0, ProductID = 1000, ProductName = ''Product_1'',
      Category = ''Books'', Price = price, Quantity = quantity, CustomerID = 10000,
      Region = ''North''\<rparr>"

definition fixture_world :: "nat world" where
  "fixture_world =
     empty_world\<lparr>files := [''sales_data_5m.csv'' \<mapsto>
        Csv [Header columns, Row (fixture_row 1 2 2), Row (fixture_row 2 (7 / 2) 1),
             Row (fixture_row 3 10 1)]]\<rparr>"

section \<open>The rows of a run\<close>

text \<open>
  The rows the generator appends, as a function of the row count: the batches of the loop
  one after the other, the random state threaded through them from the seed 42. The
  lemmas below relate the file that \<open>create_large_sample_dataset\<close> leaves to this list.
\<close>

fun loop_rows :: "'g np_random \<Rightarrow> int \<Rightarrow> int list \<Rightarrow> 'g \<Rightarrow> transaction list" where
  "loop_rows rng num_rows [] g = []"
| "loop_rows rng num_rows (batch_start # rest) g =
     (case make_batch rng batch_start num_rows g of
        (batch_df, g1) \<Rightarrow> batch_df @ loop_rows rng num_rows rest g1)"

definition generated_rows :: "'g np_random \<Rightarrow> int \<Rightarrow> transaction list" where
  "generated_rows rng num_rows =
     loop_rows rng num_rows (py_range 0 num_rows batch_size) (np_seed rng 42)"

section \<open>The file the generator leaves\<close>

lemma py_range_unit: "py_range a b 1 = [a..b - 1]"
proof (induction a b "1::int" rule: py_range.induct)
  case (1 start stop)
  show ?case
  proof (cases "start < stop")
    case True
    then show ?thesis
      using 1 by (simp add: py_range.simps [of start stop] upto_rec1 [of start "stop - 1"])
  next
    case False
    then show ?thesis by (simp add: py_range.simps [of start stop])
  qed
qed

lemma length_draws: "length (fst (draws n d g)) = n"
proof (induction n arbitrary: g)
  case 0
  then show ?case by simp
next
  case (Suc n)
  obtain y g1 where d: "d g = (y, g1)" by (cases "d g")
  obtain ys g2 where ds: "draws n d g1 = (ys, g2)" by (cases "draws n d g1")
  from Suc [of g1] d ds show ?case by simp
qed

lemma draws_all: "(\<And>g. P (fst (d g))) \<Longrightarrow> x \<in> set (fst (draws n d g)) \<Longrightarrow> P x"
proof (induction n arbitrary: g)
  case 0
  then show ?case by simp
next
  case (Suc n)
  obtain y g1 where d: "d g = (y, g1)" by (cases "d g")
  obtain ys g2 where ds: "draws n d g1 = (ys, g2)" by (cases "draws n d g1")
  from Suc.prems(2) d ds have "x = y \<or> x \<in> set ys" by simp
  then show ?case
  proof
    assume "x = y"
    with Suc.prems(1) [of g] d show ?thesis by simp
  next
    assume "x \<in> set ys"
    with Suc.IH [of g1] Suc.prems(1) ds show ?thesis by simp
  qed
qed

lemma length_date_range: "length (date_range n k) = n"
  by (simp add: date_range_def)

lemma length_data_frame: "length (data_frame n a b c d e f g h i) = n"
  by (simp add: data_frame_def)

lemma length_make_batch:
  "length (fst (make_batch rng s N g)) = nat (batch_rows s N)"
  by (simp add: make_batch_def Let_def length_data_frame split: prod.splits)

lemma map_nth_upt: "length xs = n \<Longrightarrow> map (\<lambda>i. xs ! i) [0..<n] = xs"
  using map_nth [of xs] by simp

lemma make_batch_dates:
  "map OrderDate (fst (make_batch rng s N g)) =
     date_range (nat (batch_rows s N)) (hours_per_batch (batch_rows s N))"
  by (simp add: make_batch_def Let_def data_frame_def o_def map_nth_upt length_date_range
      split: prod.splits)

lemma make_batch_tids:
  "map TransactionID (fst (make_batch rng s N g)) = [s + 1..batch_end s N]"
proof -
  have "length [s + 1..batch_end s N] = nat (batch_rows s N)"
    by (simp add: batch_rows_def)
  then show ?thesis
    by (simp add: make_batch_def Let_def data_frame_def o_def map_nth_upt py_range_unit
        split: prod.splits)
qed

lemma batch_loop_files:
  "files w filename = Some (Csv old) \<Longrightarrow>
   files (batch_loop rng filename num_rows starts w) filename =
     Some (Csv (old @ map Row (loop_rows rng num_rows starts (np_state w))))"
proof (induction starts arbitrary: w old)
  case Nil
  then show ?case by simp
next
  case (Cons s rest)
  obtain b g1 where mb: "make_batch rng s num_rows (np_state w) = (b, g1)"
    by (cases "make_batch rng s num_rows (np_state w)")
  let ?w1 = "write_batch rng filename num_rows s w"
  have f1: "files ?w1 filename = Some (Csv (old @ map Row b))"
    using Cons.prems mb by (simp add: write_batch_def to_csv_append_def)
  have g1: "np_state ?w1 = g1"
    using mb by (simp add: write_batch_def to_csv_append_def)
  show ?case
    using Cons.IH [OF f1] mb g1 by simp
qed

lemma generator_file:
  "files (create_large_sample_dataset rng filename num_rows w) filename =
     Some (Csv (Header columns # map Row (generated_rows rng num_rows)))"
proof -
  let ?w2 = "to_csv filename [Header columns] (w\<lparr>np_state := np_seed rng 42\<rparr>)"
  have "files ?w2 filename = Some (Csv [Header columns])"
    by (simp add: to_csv_def)
  from batch_loop_files [OF this]
  show ?thesis
    by (simp add: create_large_sample_dataset_def Let_def generated_rows_def to_csv_def)
qed

lemma map_filter_row_of: "List.map_filter row_of (map Row rs) = rs"
  by (induction rs) (simp_all add: List.map_filter_simps)

lemma generator_read_csv:
  "read_csv filename (create_large_sample_dataset rng filename num_rows w) =
     Some (generated_rows rng num_rows)"
  by (simp add: read_csv_def generator_file map_filter_row_of)


lemma batch_size_pos: "0 < batch_size"
  by (simp add: batch_size_def)

lemma loop_tids:
  "map TransactionID (loop_rows rng N (py_range start N batch_size) g) = [start + 1..N]"
proof (induction start N batch_size arbitrary: g rule: py_range.induct)
  case (1 start stop)
  show ?case
  proof (cases "start < stop")
    case False
    then show ?thesis by (simp add: py_range.simps [of start stop])
  next
    case True
    obtain b g1 where mb: "make_batch rng start stop g = (b, g1)"
      by (cases "make_batch rng start stop g")
    have b: "map TransactionID b = [start + 1..batch_end start stop]"
      using make_batch_tids [of rng start stop g] mb by simp
    have rest: "map TransactionID (loop_rows rng stop (py_range (start + batch_size) stop batch_size) g1)
                  = [start + batch_size + 1..stop]"
      using 1 [of g1] True batch_size_pos by simp
    have split: "[start + 1..batch_end start stop] @ [start + batch_size + 1..stop] = [start + 1..stop]"
    proof (cases "start + batch_size \<le> stop")
      case True
      then show ?thesis
        using upto_split2 [of "start + 1" "start + batch_size" stop] batch_size_pos
        by (simp add: batch_end_def)
    next
      case False
      then show ?thesis by (simp add: batch_end_def)
    qed
    show ?thesis
      using True batch_size_pos mb b rest split
      by (simp add: py_range.simps [of start stop])
  qed
qed

lemma generated_tids: "map TransactionID (generated_rows rng N) = [1..N]"
  using loop_tids [of rng N 0] by (simp add: generated_rows_def)

lemma length_generated_rows: "length (generated_rows rng N) = nat N"
proof -
  have "length (map TransactionID (generated_rows rng N)) = length [1..N]"
    by (simp only: generated_tids)
  then show ?thesis by simp
qed

lemma csv_lines_generator:
  "csv_lines filename (create_large_sample_dataset rng filename N w) =
     Some (Header columns # map Row (generated_rows rng N))"
  by (simp add: csv_lines_def generator_file)

section \<open>Dates and draws\<close>

lemma hours_per_batch_pos: "1 \<le> hours_per_batch r"
  by (simp add: hours_per_batch_def)


lemma set_date_range: "set (date_range n k) = (\<lambda>i. int i * k) ` {0..<n}"
  by (simp add: date_range_def)

lemma date_range_strict: "0 < k \<Longrightarrow> sorted_wrt (<) (date_range n k)"
proof -
  assume k: "0 < k"
  have "sorted_wrt (\<lambda>i j. int i * k < int j * k) [0..<n]"
    by (rule sorted_wrt_mono_rel [of _ "(<)"]) (use k in simp_all)
  then show ?thesis
    by (simp add: date_range_def sorted_wrt_map)
qed

lemma make_batch_dates_strict:
  "sorted_wrt (<) (map OrderDate (fst (make_batch rng s N g)))"
  using date_range_strict [of "hours_per_batch (batch_rows s N)"] hours_per_batch_pos [of "batch_rows s N"]
  by (simp add: make_batch_dates)

lemma generated_rows_none: "N \<le> 0 \<Longrightarrow> generated_rows rng N = []"
  by (simp add: generated_rows_def py_range.simps [of 0 N])

lemma generated_rows_single:
  "0 < N \<Longrightarrow> N \<le> batch_size \<Longrightarrow>
   generated_rows rng N = fst (make_batch rng 0 N (np_seed rng 42))"
  using batch_size_pos
  by (simp add: generated_rows_def py_range.simps [of 0 N] py_range.simps [of batch_size N]
      split: prod.splits)

lemma generated_rows_many:
  assumes "batch_size < N"
  shows "\<exists>b0 b1 rest. generated_rows rng N = b0 @ b1 @ rest
           \<and> map OrderDate b0 = date_range (nat batch_size) (hours_per_batch batch_size)
           \<and> map OrderDate b1 = date_range (nat (batch_rows batch_size N))
                (hours_per_batch (batch_rows batch_size N))"
proof -
  obtain b0 g1 where m0: "make_batch rng 0 N (np_seed rng 42) = (b0, g1)"
    by (cases "make_batch rng 0 N (np_seed rng 42)")
  obtain b1 g2 where m1: "make_batch rng batch_size N g1 = (b1, g2)"
    by (cases "make_batch rng batch_size N g1")
  have r0: "batch_rows 0 N = batch_size"
    using assms by (simp add: batch_rows_def batch_end_def)
  have d0: "map OrderDate b0 = date_range (nat batch_size) (hours_per_batch batch_size)"
    using make_batch_dates [of rng 0 N "np_seed rng 42"] m0 r0 by simp
  have d1: "map OrderDate b1 = date_range (nat (batch_rows batch_size N))
              (hours_per_batch (batch_rows batch_size N))"
    using make_batch_dates [of rng batch_size N g1] m1 by simp
  have "generated_rows rng N
          = b0 @ b1 @ loop_rows rng N (py_range (batch_size + batch_size) N batch_size) g2"
    using assms batch_size_pos m0 m1
    by (simp add: generated_rows_def py_range.simps [of 0 N] py_range.simps [of batch_size N])
  with d0 d1 show ?thesis by blast
qed

lemma batch_size_ge2: "2 \<le> batch_size"
  by (simp add: batch_size_def)

lemma generated_dates_sorted_iff:
  "sorted (map OrderDate (generated_rows rng N)) \<longleftrightarrow> N \<le> batch_size"
proof (cases "N \<le> batch_size")
  case True
  show ?thesis
  proof (cases "0 < N")
    case False
    then show ?thesis using True by (simp add: generated_rows_none)
  next
    case pos: True
    have "sorted_wrt (<) (map OrderDate (generated_rows rng N))"
      using make_batch_dates_strict [of rng 0 N] pos True by (simp add: generated_rows_single)
    then have "sorted (map OrderDate (generated_rows rng N))"
      by (rule strict_sorted_imp_sorted)
    with True show ?thesis by simp
  qed
next
  case False
  then have big: "batch_size < N" by simp
  from generated_rows_many [OF big, of rng] obtain b0 b1 rest where
    rows: "generated_rows rng N = b0 @ b1 @ rest" and
    d0: "map OrderDate b0 = date_range (nat batch_size) (hours_per_batch batch_size)" and
    d1: "map OrderDate b1 = date_range (nat (batch_rows batch_size N))
           (hours_per_batch (batch_rows batch_size N))"
    by blast
  have "1 < nat batch_size" using batch_size_ge2 by simp
  then have "int 1 * hours_per_batch batch_size \<in> set (map OrderDate b0)"
    unfolding d0 set_date_range by (intro imageI) simp
  then have x: "hours_per_batch batch_size \<in> set (map OrderDate b0)" by simp
  have "0 < nat (batch_rows batch_size N)"
    using big batch_size_pos by (simp add: batch_rows_def batch_end_def)
  then have "int 0 * hours_per_batch (batch_rows batch_size N) \<in> set (map OrderDate b1)"
    unfolding d1 set_date_range by (intro imageI) simp
  then have y: "0 \<in> set (map OrderDate b1)" by simp
  have "\<not> sorted (map OrderDate (generated_rows rng N))"
  proof
    assume "sorted (map OrderDate (generated_rows rng N))"
    then have "sorted (map OrderDate b0 @ map OrderDate b1 @ map OrderDate rest)"
      by (simp add: rows)
    then have "\<forall>a\<in>set (map OrderDate b0). \<forall>b\<in>set (map OrderDate b1). a \<le> b"
      by (simp add: sorted_append)
    with x y have "hours_per_batch batch_size \<le> 0" by blast
    with hours_per_batch_pos [of batch_size] show False by simp
  qed
  with False show ?thesis by simp
qed







lemma draws_fst_length: "draws n d g = (xs, g1) \<Longrightarrow> length xs = n"
  using length_draws [of n d g] by simp

lemma make_batch_random_columns:
  "\<exists>g0 g4 g5.
     map ProductID (fst (make_batch rng s N g))
       = fst (draws (nat (batch_rows s N)) (np_randint rng 1000 9999) g0)
     \<and> map Quantity (fst (make_batch rng s N g))
       = fst (draws (nat (batch_rows s N)) (np_randint rng 1 10) g4)
     \<and> map CustomerID (fst (make_batch rng s N g))
       = fst (draws (nat (batch_rows s N)) (np_randint rng 10000 99999) g5)"
proof -
  let ?n = "nat (batch_rows s N)"
  obtain pids g1 where p1: "draws ?n (np_randint rng 1000 9999) g = (pids, g1)"
    by (cases "draws ?n (np_randint rng 1000 9999) g")
  obtain names g2 where p2: "draws ?n (np_choice rng product_names) g1 = (names, g2)"
    by (cases "draws ?n (np_choice rng product_names) g1")
  obtain cats g3 where p3: "draws ?n (np_choice rng categories) g2 = (cats, g3)"
    by (cases "draws ?n (np_choice rng categories) g2")
  obtain dp g4 where p4: "draws ?n (np_lognormal rng 3 1) g3 = (dp, g4)"
    by (cases "draws ?n (np_lognormal rng 3 1) g3")
  obtain qtys g5 where p5: "draws ?n (np_randint rng 1 10) g4 = (qtys, g5)"
    by (cases "draws ?n (np_randint rng 1 10) g4")
  obtain cids g6 where p6: "draws ?n (np_randint rng 10000 99999) g5 = (cids, g6)"
    by (cases "draws ?n (np_randint rng 10000 99999) g5")
  obtain regs g7 where p7: "draws ?n (np_choice rng regions) g6 = (regs, g7)"
    by (cases "draws ?n (np_choice rng regions) g6")
  note len = draws_fst_length [OF p1] draws_fst_length [OF p4] draws_fst_length [OF p5]
    draws_fst_length [OF p6]
  have a: "map ProductID (fst (make_batch rng s N g)) = pids"
    by (simp add: make_batch_def Let_def data_frame_def o_def p1 p2 p3 p4 p5 p6 p7 map_nth_upt len)
  have c: "map Quantity (fst (make_batch rng s N g)) = qtys"
    by (simp add: make_batch_def Let_def data_frame_def o_def p1 p2 p3 p4 p5 p6 p7 map_nth_upt len)
  have d: "map CustomerID (fst (make_batch rng s N g)) = cids"
    by (simp add: make_batch_def Let_def data_frame_def o_def p1 p2 p3 p4 p5 p6 p7 map_nth_upt len)
  show ?thesis
    apply (rule exI [of _ g], rule exI [of _ g4], rule exI [of _ g5])
    using a c d p1 p5 p6 by simp
qed

lemma randint_draws:
  "randint_ok rng \<Longrightarrow> low < high \<Longrightarrow> x \<in> set (fst (draws n (np_randint rng low high) g))
     \<Longrightarrow> low \<le> x \<and> x < high"
  using draws_all [of "\<lambda>x. low \<le> x \<and> x < high" "np_randint rng low high" x n g]
  by (simp add: randint_ok_def)

lemma make_batch_randints:
  assumes ok: "randint_ok rng" and r: "r \<in> set (fst (make_batch rng s N g))"
  shows "1 \<le> Quantity r \<and> Quantity r < 10 \<and> 1000 \<le> ProductID r \<and> ProductID r < 9999
         \<and> 10000 \<le> CustomerID r \<and> CustomerID r < 99999"
proof -
  from make_batch_random_columns [of rng s N g] obtain g0 g4 g5 where
    p: "map ProductID (fst (make_batch rng s N g))
          = fst (draws (nat (batch_rows s N)) (np_randint rng 1000 9999) g0)" and
    q: "map Quantity (fst (make_batch rng s N g))
          = fst (draws (nat (batch_rows s N)) (np_randint rng 1 10) g4)" and
    c: "map CustomerID (fst (make_batch rng s N g))
          = fst (draws (nat (batch_rows s N)) (np_randint rng 10000 99999) g5)"
    by blast
  have "ProductID r \<in> set (map ProductID (fst (make_batch rng s N g)))"
    using r by simp
  then have 1: "1000 \<le> ProductID r \<and> ProductID r < 9999"
    unfolding p by (intro randint_draws [OF ok, of 1000 9999]) simp_all
  have "Quantity r \<in> set (map Quantity (fst (make_batch rng s N g)))"
    using r by simp
  then have 2: "1 \<le> Quantity r \<and> Quantity r < 10"
    unfolding q by (intro randint_draws [OF ok, of 1 10]) simp_all
  have "CustomerID r \<in> set (map CustomerID (fst (make_batch rng s N g)))"
    using r by simp
  then have 3: "10000 \<le> CustomerID r \<and> CustomerID r < 99999"
    unfolding c by (intro randint_draws [OF ok, of 10000 99999]) simp_all
  from 1 2 3 show ?thesis by simp
qed

lemma loop_rows_all:
  "(\<And>s g r. r \<in> set (fst (make_batch rng s N g)) \<Longrightarrow> P r) \<Longrightarrow>
   r \<in> set (loop_rows rng N starts g) \<Longrightarrow> P r"
proof (induction starts arbitrary: g)
  case Nil
  then show ?case by simp
next
  case (Cons s rest)
  obtain b g1 where mb: "make_batch rng s N g = (b, g1)"
    by (cases "make_batch rng s N g")
  from Cons.prems(2) mb have "r \<in> set b \<or> r \<in> set (loop_rows rng N rest g1)" by simp
  then show ?case
  proof
    assume "r \<in> set b"
    with Cons.prems(1) [of r s g] mb show ?thesis by simp
  next
    assume "r \<in> set (loop_rows rng N rest g1)"
    with Cons.IH [of g1] Cons.prems(1) show ?thesis by blast
  qed
qed

lemma generated_randints:
  assumes "randint_ok rng" "r \<in> set (generated_rows rng N)"
  shows "1 \<le> Quantity r \<and> Quantity r \<le> 9 \<and> 1000 \<le> ProductID r \<and> ProductID r \<le> 9998
         \<and> 10000 \<le> CustomerID r \<and> CustomerID r \<le> 99998"
proof -
  have "1 \<le> Quantity r \<and> Quantity r < 10 \<and> 1000 \<le> ProductID r \<and> ProductID r < 9999
         \<and> 10000 \<le> CustomerID r \<and> CustomerID r < 99999"
    using assms(2) unfolding generated_rows_def
    by (rule loop_rows_all [rotated]) (rule make_batch_randints [OF assms(1)])
  then show ?thesis by simp
qed


lemma counter_rng_randint_ok: "randint_ok counter_rng"
proof -
  have "low \<le> low + int g mod (high - low) \<and> low + int g mod (high - low) < high"
    if "low < high" for low high :: int and g :: nat
  proof -
    from that have "0 < high - low" by simp
    from pos_mod_bound [OF this, of "int g"] pos_mod_sign [OF this, of "int g"]
    show ?thesis by linarith
  qed
  then show ?thesis by (simp add: randint_ok_def counter_rng_def)
qed

lemma draws_numeral:
  "draws (numeral k) d g =
     (case d g of (x, g1) \<Rightarrow> (case draws (pred_numeral k) d g1 of (xs, g2) \<Rightarrow> (x # xs, g2)))"
  by (simp add: numeral_eq_Suc)

lemma upt_numeral:
  "[i..<numeral k] = (if i < numeral k then i # [Suc i..<numeral k] else [])"
  by (rule upt_rec)

lemmas eval_batch = make_batch_def Let_def data_frame_def batch_rows_def batch_end_def
  batch_size_def draws_numeral counter_rng_def o_def upt_numeral

section \<open>Evaluating small runs\<close>

lemma foldl_add: "foldl (+) a xs = a + sum_list xs" for a :: real
  by (induction xs arbitrary: a) simp_all

lemma py_sum_sum_list: "py_sum xs = sum_list xs"
  by (simp add: py_sum_def foldl_add)

lemma files_popen: "files (popen args w) = files w"
  by (simp add: popen_def)

lemma files_start_workers: "files (start_workers n w) = files w"
  by (induction n arbitrary: w) (simp_all add: files_popen)

lemma launched_start_workers:
  "launched (start_workers n w) =
     launched w @ replicate n [''distributed_sales_system.py'', ''worker'']"
proof (induction n arbitrary: w)
  case 0
  then show ?case by simp
next
  case (Suc n)
  then show ?case
    by (simp add: popen_def replicate_app_Cons_same)
qed

lemma lower_demo: "lower ''demo'' = ''demo''"
  by code_simp

lemma main_demo:
  "main rng [''setup_and_demo.py'', ''demo''] w =
     start_workers 3
       (popen [''distributed_sales_system.py'', ''server'', ''sales_data_1m.csv''] w)"
  by (simp add: main_def lower_demo run_demo_with_multiple_workers_def)

lemma test_script_sum:
  "test_script w =
     map_option (\<lambda>data. \<Sum>r\<leftarrow>data. Price r * of_int (Quantity r))
       (read_csv ''sales_data_5m.csv'' w)"
  by (simp add: test_script_def py_sum_sum_list o_def split: option.splits)

lemma fixture_read_csv:
  "read_csv ''sales_data_5m.csv'' fixture_world =
     Some [fixture_row 1 2 2, fixture_row 2 (7 / 2) 1, fixture_row 3 10 1]"
  by (simp add: read_csv_def fixture_world_def List.map_filter_simps)

lemma three_rows_single: "generated_rows rng 3 = fst (make_batch rng 0 3 (np_seed rng 42))"
  by (simp add: generated_rows_single batch_size_def)

section \<open>Order dates\<close>

text \<open>
  C1, as the code has it. Within a batch the OrderDate values are strictly increasing.
  Every batch starts again at 2020-01-01 00:00, so the OrderDate column of the whole file
  is non-decreasing exactly when the row count is at most 100,000, the size of one batch.
\<close>

theorem order_dates_sorted_iff_single_batch:
  "sorted_wrt (<) (map OrderDate (fst (make_batch rng batch_start N g)))
   \<and> map_option (sorted \<circ> map OrderDate)
       (read_csv filename (create_large_sample_dataset rng filename N w))
     = Some (N \<le> 100000)"
  by (simp add: make_batch_dates_strict generator_read_csv generated_dates_sorted_iff
      batch_size_def)

text \<open>
  C1 as stated fails at 100,001 rows: the second batch starts again at the first date,
  after the 100,000 dates of the first batch.
\<close>

theorem order_dates_counterexample:
  "map_option (sorted \<circ> map OrderDate)
     (read_csv ''sales.csv''
        (create_large_sample_dataset counter_rng ''sales.csv'' 100001 empty_world))
   = Some False"
  by (simp add: generator_read_csv generated_dates_sorted_iff batch_size_def)

section \<open>Transaction identifiers\<close>

text \<open>
  C2. For every row count \<open>N\<close> the TransactionID column of the generated file is the
  sequence 1, 2, ..., \<open>N\<close>: contiguous and strictly increasing, across batch boundaries.
\<close>

theorem transaction_ids_contiguous:
  "map_option (map TransactionID)
     (read_csv filename (create_large_sample_dataset rng filename N w)) = Some [1..N]"
  by (simp add: generator_read_csv generated_tids)

section \<open>Row count\<close>

lemma batches_250000: "py_range 0 250000 batch_size = [0, 100000, 200000]"
  by (simp add: py_range.simps batch_size_def)

text \<open>
  C3. The generated file has one header line and then \<open>N\<close> data rows (\<open>nat N\<close> is \<open>N\<close>
  for a row count \<open>N \<ge> 0\<close>). For 250,000 rows the loop runs three batches, of 100,000,
  100,000 and 50,000 rows, and the file has 250,001 lines.
\<close>

theorem row_count:
  "map_option length (csv_lines filename (create_large_sample_dataset rng filename N w))
     = Some (nat N + 1)
   \<and> map_option hd (csv_lines filename (create_large_sample_dataset rng filename N w))
     = Some (Header columns)
   \<and> map_option length (read_csv filename (create_large_sample_dataset rng filename N w))
     = Some (nat N)
   \<and> map (\<lambda>batch_start. length (fst (make_batch rng batch_start 250000 g)))
       (py_range 0 250000 batch_size) = [100000, 100000, 50000]
   \<and> map_option length
       (csv_lines filename (create_large_sample_dataset rng filename 250000 w)) = Some 250001"
proof -
  have "map (\<lambda>batch_start. length (fst (make_batch rng batch_start 250000 g)))
          (py_range 0 250000 batch_size) = [100000, 100000, 50000]"
    unfolding batches_250000
    by (simp add: length_make_batch batch_rows_def batch_end_def batch_size_def)
  then show ?thesis
    by (simp add: csv_lines_generator generator_read_csv length_generated_rows)
qed

section \<open>Determinism\<close>

text \<open>
  C4. The file the generator leaves depends on the row count alone: two runs with the
  same row count give the same file, whatever the random state, the disk and the file
  name were before each run.
\<close>

theorem generator_deterministic:
  "files (create_large_sample_dataset rng filename1 N w1) filename1 =
   files (create_large_sample_dataset rng filename2 N w2) filename2"
  by (simp add: generator_file)

section \<open>Ranges of the integer columns\<close>

text \<open>
  C5. With \<^verbatim>\<open>randint\<close> drawing from the half-open interval, every row of the generated
  file has Quantity in 1..9, ProductID in 1000..9998 and CustomerID in 10000..99998.
\<close>

theorem random_integer_ranges:
  assumes "randint_ok rng"
  shows "map_option
           (list_all (\<lambda>r. 1 \<le> Quantity r \<and> Quantity r \<le> 9
                        \<and> 1000 \<le> ProductID r \<and> ProductID r \<le> 9998
                        \<and> 10000 \<le> CustomerID r \<and> CustomerID r \<le> 99998))
           (read_csv filename (create_large_sample_dataset rng filename N w))
         = Some True"
  using generated_randints [OF assms, of _ N]
  by (simp add: generator_read_csv list_all_iff)

theorem random_integer_ranges_witness:
  "randint_ok counter_rng
   \<and> map_option (map Quantity)
       (read_csv ''sales.csv''
          (create_large_sample_dataset counter_rng ''sales.csv'' 3 empty_world))
     = Some [1, 2, 3]
   \<and> map_option
       (list_all (\<lambda>r. 1 \<le> Quantity r \<and> Quantity r \<le> 9
                    \<and> 1000 \<le> ProductID r \<and> ProductID r \<le> 9998
                    \<and> 10000 \<le> CustomerID r \<and> CustomerID r \<le> 99998))
       (read_csv ''sales.csv''
          (create_large_sample_dataset counter_rng ''sales.csv'' 3 empty_world))
     = Some True"
proof -
  have "map Quantity (generated_rows counter_rng 3) = [1, 2, 3]"
    unfolding three_rows_single by (simp add: eval_batch)
  then show ?thesis
    using random_integer_ranges [OF counter_rng_randint_ok, of "''sales.csv''" 3 empty_world]
    by (simp add: counter_rng_randint_ok generator_read_csv)
qed

section \<open>Time step and window\<close>




section \<open>Revenue\<close>

text \<open>
  C8. The revenue script multiplies Price by Quantity in every row of the file it reads
  and returns the sum of the products; on the fixture with prices 2.00, 3.50, 10.00 and
  quantities 2, 1, 1 the total is 17.50.
\<close>

theorem revenue_total:
  "test_script w =
     map_option (\<lambda>data. \<Sum>r\<leftarrow>data. Price r * of_int (Quantity r))
       (read_csv ''sales_data_5m.csv'' w)
   \<and> map_option (map (\<lambda>r. (Price r, Quantity r))) (read_csv ''sales_data_5m.csv'' fixture_world)
     = Some [(2, 2), (7 / 2, 1), (10, 1)]
   \<and> test_script fixture_world = Some (35 / 2)"
  by (simp add: test_script_sum fixture_read_csv fixture_row_def)

section \<open>The demo command\<close>

text \<open>
  Called without a file name, the orchestrator creates the default dataset when it is
  missing, before it starts the server.
\<close>

lemma run_demo_default_creates:
  assumes "files w ''sales_data_1m.csv'' = None"
  shows "files (run_demo_with_multiple_workers rng None n w) ''sales_data_1m.csv''
           = Some (Csv (Header columns # map Row (generated_rows rng 1000000)))"
    and "launched (run_demo_with_multiple_workers rng None n w)
           = launched (create_large_sample_dataset rng ''sales_data_1m.csv'' 1000000 w)
             @ [''distributed_sales_system.py'', ''server'', ''sales_data_1m.csv'']
             # replicate n [''distributed_sales_system.py'', ''worker'']"
  using assms
  by (simp_all add: run_demo_with_multiple_workers_def files_start_workers files_popen
      generator_file launched_start_workers popen_def)

text \<open>
  C9 fails on the code. The \<^verbatim>\<open>demo\<close> command hands the default file name to the
  orchestrator, which then takes the name as given and skips the check for a missing
  file: the files on disk stay as they were, and the server and three workers are started.
  With no dataset on disk the server is started on a file that does not exist.
\<close>

theorem demo_command_skips_generation:
  "files (main rng [''setup_and_demo.py'', ''demo''] w) = files w
   \<and> launched (main rng [''setup_and_demo.py'', ''demo''] w)
     = launched w @
       [[''distributed_sales_system.py'', ''server'', ''sales_data_1m.csv''],
        [''distributed_sales_system.py'', ''worker''],
        [''distributed_sales_system.py'', ''worker''],
        [''distributed_sales_system.py'', ''worker'']]
   \<and> files (main counter_rng [''setup_and_demo.py'', ''demo''] empty_world)
       ''sales_data_1m.csv'' = None"
  by (simp add: main_demo files_start_workers files_popen launched_start_workers popen_def
      empty_world_def numeral_3_eq_3)

section \<open>Row count zero\<close>

text \<open>
  C10. Called with a row count of 0, the generator returns and leaves a file that holds
  the header row with the nine column names and no data row.
\<close>

theorem zero_rows_header_only:
  "files (create_large_sample_dataset rng filename 0 w) filename =
     Some (Csv [Header [''TransactionID'', ''OrderDate'', ''ProductID'', ''ProductName'',
                        ''Category'', ''Price'', ''Quantity'', ''CustomerID'', ''Region'']])"
  by (simp add: create_large_sample_dataset_def py_range.simps [of 0 0] to_csv_def columns_def)

end
